theory Spec2Isabelle
  imports Main "HOL-Library.Sublist" "HOL-Library.Multiset" "HOL-Library.Char_ord"
    "HOL-Library.List_Lexorder"
begin

section \<open>Data model\<close>

text \<open>
  The release computation engine of release-drafter (\<^verbatim>\<open>lib/releases.js\<close>), embedded
  function by function. JavaScript strings are \<^typ>\<open>string\<close>: one \<^typ>\<open>char\<close> per code
  unit, which covers the code units 0..255. A value that may be \<^verbatim>\<open>null\<close> or
  \<^verbatim>\<open>undefined\<close> is an \<^typ>\<open>'a option\<close>; a string tested for truthiness is true
  exactly when it is not empty.
\<close>

text \<open>\<^verbatim>\<open>pullRequest.author\<close>: login, \<^verbatim>\<open>__typename\<close> and url.\<close>

record author =
  login :: string
  typename :: string
  author_url :: string

text \<open>A merged pull request; \<open>labels\<close> holds the names of \<^verbatim>\<open>labels.nodes\<close> in order.\<close>

record pull_request =
  title :: string
  number :: nat
  pr_author :: "author option"
  pr_body :: string
  url :: string
  baseRefName :: string
  headRefName :: string
  labels :: "string list"

text \<open>\<^verbatim>\<open>commit.author\<close>: the login of \<^verbatim>\<open>author.user\<close> when there is one, and \<^verbatim>\<open>author.name\<close>.\<close>

record commit =
  user_login :: "string option"
  author_name :: string

text \<open>A release as the hosting platform lists it; \<open>created_at\<close> is the time stamp as
  \<^verbatim>\<open>new Date(created_at)\<close> reads it, in milliseconds.\<close>

record release =
  tag_name :: string
  created_at :: int
  target_commitish :: string
  draft :: bool
  prerelease :: bool
  body :: "string option"

record category =
  cat_title :: string
  cat_labels :: "string list"
  collapse_after :: nat

text \<open>The configuration; \<open>patch_labels\<close>, \<open>minor_labels\<close>, \<open>major_labels\<close> and
  \<open>default_key\<close> are \<^verbatim>\<open>config['version-resolver']\<close>.\<close>

record config =
  prerelease_identifier :: string
  tag_prefix :: string
  version_template :: string
  tag_template :: string
  name_template :: string
  replacers :: "(string \<times> string) list"
  exclude_labels :: "string list"
  include_labels :: "string list"
  exclude_contributors :: "string list"
  categories :: "category list"
  change_title_escapes :: string
  change_template :: string
  category_template :: string
  no_changes_template :: string
  no_contributors_template :: string
  header :: string
  body_template :: string
  footer :: string
  patch_labels :: "string list"
  minor_labels :: "string list"
  major_labels :: "string list"
  default_key :: string

section \<open>Label filters\<close>

text \<open>\<^verbatim>\<open>getFilterExcludedPullRequests\<close>: false when some label is an excluded one.\<close>

definition getFilterExcludedPullRequests :: "string list \<Rightarrow> pull_request \<Rightarrow> bool" where
  "getFilterExcludedPullRequests excludeLabels pullRequest =
     (if list_ex (\<lambda>l. l \<in> set excludeLabels) (labels pullRequest) then False else True)"

text \<open>\<^verbatim>\<open>getFilterIncludedPullRequests\<close>: true when no include label is configured or
  some label is an included one.\<close>

definition getFilterIncludedPullRequests :: "string list \<Rightarrow> pull_request \<Rightarrow> bool" where
  "getFilterIncludedPullRequests includeLabels pullRequest =
     (if length includeLabels = 0 \<or> list_ex (\<lambda>l. l \<in> set includeLabels) (labels pullRequest)
      then True else False)"

section \<open>resolveVersionKeyIncrement\<close>

text \<open>The keys of \<^verbatim>\<open>priorityMap\<close>, in the order \<^verbatim>\<open>Object.keys\<close> lists them.\<close>

datatype version_key = patch | minor | major

definition priority_keys :: "version_key list" where
  "priority_keys = [patch, minor, major]"

fun priorityMap :: "version_key \<Rightarrow> nat" where
  "priorityMap patch = 1"
| "priorityMap minor = 2"
| "priorityMap major = 3"

fun key_name :: "version_key \<Rightarrow> string" where
  "key_name patch = ''patch''"
| "key_name minor = ''minor''"
| "key_name major = ''major''"

fun resolver_labels :: "config \<Rightarrow> version_key \<Rightarrow> string list" where
  "resolver_labels cfg patch = patch_labels cfg"
| "resolver_labels cfg minor = minor_labels cfg"
| "resolver_labels cfg major = major_labels cfg"

text \<open>The entries given to \<^verbatim>\<open>Object.fromEntries\<close>: for each key in turn, one pair per
  configured label.\<close>

definition labelToKeyMap_entries :: "config \<Rightarrow> (string \<times> version_key) list" where
  "labelToKeyMap_entries cfg =
     concat (map (\<lambda>key. map (\<lambda>label. (label, key)) (resolver_labels cfg key)) priority_keys)"

text \<open>
  \<^verbatim>\<open>labelToKeyMap\<close> is a plain object, so \<^verbatim>\<open>labelToKeyMap[name]\<close> reads an own property
  when there is one (of several entries with one label the last wins) and otherwise goes up
  to \<^verbatim>\<open>Object.prototype\<close>, whose members are functions or objects, not key names.
\<close>

definition object_prototype_properties :: "string list" where
  "object_prototype_properties =
     [''constructor'', ''__defineGetter__'', ''__defineSetter__'', ''hasOwnProperty'',
      ''__lookupGetter__'', ''__lookupSetter__'', ''isPrototypeOf'', ''propertyIsEnumerable'',
      ''toString'', ''valueOf'', ''__proto__'', ''toLocaleString'']"

datatype property_value = Undefined | Key version_key | Inherited

definition labelToKeyMap :: "config \<Rightarrow> string \<Rightarrow> property_value" where
  "labelToKeyMap cfg nm =
     (case map_of (rev (labelToKeyMap_entries cfg)) nm of
        Some k \<Rightarrow> Key k
      | None \<Rightarrow> if nm \<in> set object_prototype_properties then Inherited else Undefined)"

text \<open>\<^verbatim>\<open>Boolean(v)\<close> on a looked-up value: only \<^verbatim>\<open>undefined\<close> is falsy.\<close>

fun truthy :: "property_value \<Rightarrow> bool" where
  "truthy Undefined = False"
| "truthy (Key k) = True"
| "truthy Inherited = True"

text \<open>\<^verbatim>\<open>priorityMap[key]\<close> for a looked-up value: a number for a key name,
  \<^verbatim>\<open>undefined\<close> (here \<open>None\<close>) for anything else.\<close>

fun priority_of :: "property_value \<Rightarrow> nat option" where
  "priority_of (Key k) = Some (priorityMap k)"
| "priority_of Undefined = None"
| "priority_of Inherited = None"

text \<open>\<^verbatim>\<open>Math.max(...xs)\<close>: minus infinity for no argument, \<^verbatim>\<open>NaN\<close> as soon as one
  argument is \<^verbatim>\<open>undefined\<close>.\<close>

datatype js_number = NegInfinity | NaN | Num nat

fun js_max2 :: "js_number \<Rightarrow> nat option \<Rightarrow> js_number" where
  "js_max2 NaN _ = NaN"
| "js_max2 _ None = NaN"
| "js_max2 NegInfinity (Some n) = Num n"
| "js_max2 (Num m) (Some n) = Num (max m n)"

definition Math_max :: "nat option list \<Rightarrow> js_number" where
  "Math_max xs = foldl js_max2 NegInfinity xs"

text \<open>\<^verbatim>\<open>priorityMap[key] === priority\<close>: \<^verbatim>\<open>NaN\<close> and minus infinity equal no priority.\<close>

fun strict_equal :: "nat \<Rightarrow> js_number \<Rightarrow> bool" where
  "strict_equal n (Num m) = (n = m)"
| "strict_equal n NaN = False"
| "strict_equal n NegInfinity = False"

definition resolveVersionKeyIncrement :: "pull_request list \<Rightarrow> config \<Rightarrow> bool \<Rightarrow> string" where
  "resolveVersionKeyIncrement mergedPullRequests cfg isPreRelease =
     (let keys = filter truthy
            (concat (map (\<lambda>pr. map (labelToKeyMap cfg) (labels pr))
               (filter (getFilterIncludedPullRequests (include_labels cfg))
                 (filter (getFilterExcludedPullRequests (exclude_labels cfg)) mergedPullRequests))));
          keyPriorities = map priority_of keys;
          priority = Math_max keyPriorities;
          versionKey = find (\<lambda>key. strict_equal (priorityMap key) priority) priority_keys;
          versionKeyIncrement = (case versionKey of Some k \<Rightarrow> key_name k | None \<Rightarrow> default_key cfg);
          shouldIncrementAsPrerelease = (isPreRelease \<and> prerelease_identifier cfg \<noteq> [])
      in if \<not> shouldIncrementAsPrerelease then versionKeyIncrement
         else ''pre'' @ versionKeyIncrement)"

text \<open>
  The rule of the specification, for comparison: the changes left by the two label filters,
  whether a change among them carries a trigger label of a class, and the highest class
  present (major before minor before patch), the configured default when none is.
\<close>

definition filtered_changes :: "pull_request list \<Rightarrow> config \<Rightarrow> pull_request list" where
  "filtered_changes prs cfg =
     filter (getFilterIncludedPullRequests (include_labels cfg))
       (filter (getFilterExcludedPullRequests (exclude_labels cfg)) prs)"

definition trigger_present :: "pull_request list \<Rightarrow> config \<Rightarrow> version_key \<Rightarrow> bool" where
  "trigger_present prs cfg k =
     list_ex (\<lambda>pr. list_ex (\<lambda>l. l \<in> set (resolver_labels cfg k)) (labels pr))
       (filtered_changes prs cfg)"

definition highest_present :: "pull_request list \<Rightarrow> config \<Rightarrow> string" where
  "highest_present prs cfg =
     (if trigger_present prs cfg major then ''major''
      else if trigger_present prs cfg minor then ''minor''
      else if trigger_present prs cfg patch then ''patch''
      else default_key cfg)"

section \<open>Strings and numbers of the runtime\<close>

text \<open>\<^verbatim>\<open>`${n}`\<close> for a natural number: its decimal digits.\<close>

definition digit_char :: "nat \<Rightarrow> char" where
  "digit_char d = char_of (48 + d)"

fun string_of_nat :: "nat \<Rightarrow> string" where
  "string_of_nat n =
     (if n < 10 then [digit_char n] else string_of_nat (n div 10) @ [digit_char (n mod 10)])"

declare string_of_nat.simps [simp del]

text \<open>\<^verbatim>\<open>\d\<close> without the unicode flag: the ten ASCII digits.\<close>

definition is_digit :: "char \<Rightarrow> bool" where
  "is_digit c = (c \<in> set ''0123456789'')"

text \<open>\<^verbatim>\<open>Number.parseInt(ds, 10)\<close> on a string of digits (exact below \<open>2 ^ 53\<close>).\<close>

definition parseInt :: "string \<Rightarrow> nat" where
  "parseInt ds = foldl (\<lambda>acc c. 10 * acc + (of_char c - 48)) 0 ds"

text \<open>The code units below 256 that \<^verbatim>\<open>String.prototype.trim\<close> removes: tab, line feed,
  vertical tab, form feed, carriage return, space and no-break space.\<close>

definition js_whitespace :: "char \<Rightarrow> bool" where
  "js_whitespace c = (of_char c \<in> set [9, 10, 11, 12, 13, 32, 160 :: nat])"

definition js_trim :: "string \<Rightarrow> string" where
  "js_trim s = rev (dropWhile js_whitespace (rev (dropWhile js_whitespace s)))"

text \<open>\<^verbatim>\<open>xs.join(sep)\<close>.\<close>

fun join :: "string \<Rightarrow> string list \<Rightarrow> string" where
  "join sep [] = []"
| "join sep [x] = x"
| "join sep (x # y # ys) = x @ sep @ join sep (y # ys)"

text \<open>\<^verbatim>\<open>xs[xs.length - 1]\<close>: \<^verbatim>\<open>undefined\<close> on an empty array.\<close>

definition last_element :: "'a list \<Rightarrow> 'a option" where
  "last_element xs = (if xs = [] then None else Some (last xs))"

text \<open>\<^verbatim>\<open>xs.findIndex(p)\<close>, with \<open>None\<close> for \<^verbatim>\<open>-1\<close>.\<close>

fun findIndex :: "('a \<Rightarrow> bool) \<Rightarrow> 'a list \<Rightarrow> nat option" where
  "findIndex p [] = None"
| "findIndex p (x # xs) = (if p x then Some 0 else map_option Suc (findIndex p xs))"

text \<open>
  \<^verbatim>\<open>Array.prototype.sort(compare)\<close>. The language requires the sort to be stable, and for
  a consistent comparator that fixes the result: elements in ascending order, equal ones in
  their input order. This insertion sort computes it; where the comparator is inconsistent
  the engine's order is its own, and the model fixes this one.
\<close>

fun insort_by :: "('a \<Rightarrow> 'a \<Rightarrow> int) \<Rightarrow> 'a \<Rightarrow> 'a list \<Rightarrow> 'a list" where
  "insort_by compare x [] = [x]"
| "insort_by compare x (y # ys) =
     (if compare x y \<le> 0 then x # y # ys else y # insort_by compare x ys)"

definition array_sort :: "('a \<Rightarrow> 'a \<Rightarrow> int) \<Rightarrow> 'a list \<Rightarrow> 'a list" where
  "array_sort compare xs = foldr (insort_by compare) xs []"

section \<open>sortReleases and findReleases\<close>

text \<open>\<^verbatim>\<open>s.replace(new RegExp(`^${regexEscape(p)}`), '')\<close>: \<open>s\<close> without its prefix \<open>p\<close>,
  when it has it.\<close>

definition remove_prefix :: "string \<Rightarrow> string \<Rightarrow> string" where
  "remove_prefix p s = (if prefix p s then drop (length p) s else s)"

text \<open>
  The comparator of \<^verbatim>\<open>sortReleases\<close>. \<open>compareVersions\<close> is the function of the
  \<^verbatim>\<open>compare-versions\<close> package, a parameter here: \<open>Some c\<close> is its result, \<open>None\<close>
  the exception it raises on a tag that is no version, which the comparator catches to
  compare the creation dates.
\<close>

definition release_compare ::
  "(string \<Rightarrow> string \<Rightarrow> int option) \<Rightarrow> string \<Rightarrow> release \<Rightarrow> release \<Rightarrow> int" where
  "release_compare compareVersions tagPrefix r1 r2 =
     (case compareVersions (remove_prefix tagPrefix (tag_name r1))
                           (remove_prefix tagPrefix (tag_name r2)) of
        Some c \<Rightarrow> c
      | None \<Rightarrow> created_at r1 - created_at r2)"

definition sortReleases ::
  "(string \<Rightarrow> string \<Rightarrow> int option) \<Rightarrow> release list \<Rightarrow> string \<Rightarrow> release list" where
  "sortReleases compareVersions releases tagPrefix =
     array_sort (release_compare compareVersions tagPrefix) releases"

text \<open>
  \<^verbatim>\<open>PR_MARKER_REGEX = /<!-- pr-number: (\d+) -->/\<close>. \<open>marker_at s\<close> is the match that
  starts at the head of \<open>s\<close>, giving the digits of the group; \<open>PR_MARKER_match s\<close> is
  \<^verbatim>\<open>s.match(PR_MARKER_REGEX)\<close>, the leftmost match.
\<close>

definition marker_at :: "string \<Rightarrow> string option" where
  "marker_at s =
     (if prefix ''<!-- pr-number: '' s then
        (let rest = drop (length ''<!-- pr-number: '') s;
             ds = takeWhile is_digit rest;
             after = dropWhile is_digit rest
         in if ds \<noteq> [] \<and> prefix '' -->'' after then Some ds else None)
      else None)"

fun PR_MARKER_match :: "string \<Rightarrow> string option" where
  "PR_MARKER_match [] = None"
| "PR_MARKER_match (c # cs) =
     (case marker_at (c # cs) of Some ds \<Rightarrow> Some ds | None \<Rightarrow> PR_MARKER_match cs)"

text \<open>
  \<^verbatim>\<open>findReleases\<close> after the listing: \<open>releases\<close> is what \<^verbatim>\<open>paginate\<close> returned. The
  result is the pair \<^verbatim>\<open>{ prSpecificRelease, lastRelease }\<close>; \<^verbatim>\<open>null\<close> and
  \<^verbatim>\<open>undefined\<close> are both \<open>None\<close>.
\<close>

definition findReleases ::
  "(string \<Rightarrow> string \<Rightarrow> int option) \<Rightarrow> release list \<Rightarrow> string \<Rightarrow> bool \<Rightarrow> bool \<Rightarrow> string
     \<Rightarrow> nat option \<Rightarrow> bool \<Rightarrow> release option \<times> release option" where
  "findReleases compareVersions releases targetCommitish filterByCommitish includePreReleases
       tagPrefix prNumber isPrereleaseRun =
     (let targetCommitishName = remove_prefix ''refs/heads/'' targetCommitish;
          commitishFilteredReleases =
            (if filterByCommitish
             then filter (\<lambda>r. targetCommitishName = remove_prefix ''refs/heads/'' (target_commitish r))
                    releases
             else releases);
          prefixFilteredReleases =
            (if tagPrefix \<noteq> []
             then filter (\<lambda>r. prefix tagPrefix (tag_name r)) commitishFilteredReleases
             else commitishFilteredReleases);
          sortedSelectedReleases = sortReleases compareVersions prefixFilteredReleases tagPrefix;
          lastReleaseFilter =
            filter (\<lambda>r. \<not> draft r \<and> (\<not> prerelease r \<or> includePreReleases)) sortedSelectedReleases;
          lastRelease = last_element lastReleaseFilter;
          prSpecificRelease =
            (if isPrereleaseRun \<and> length sortedSelectedReleases > 0
             then last_element
                    (filter (\<lambda>r. case body r of
                                   None \<Rightarrow> False
                                 | Some b \<Rightarrow>
                                     (case PR_MARKER_match b of
                                        None \<Rightarrow> False
                                      | Some ds \<Rightarrow> \<not> (Some (parseInt ds) \<noteq> prNumber)))
                       sortedSelectedReleases)
             else None)
      in (prSpecificRelease, lastRelease))"

section \<open>Consistency of a comparator\<close>






section \<open>categorizePullRequests\<close>

text \<open>
  The result is the pair \<^verbatim>\<open>[uncategorizedPullRequests, categorizedPullRequests]\<close>; an
  element of the second list is a category with its \<^verbatim>\<open>pullRequests\<close>. The filter
  \<^verbatim>\<open>filterUncategorizedPullRequests\<close> pushes each pull request it rejects to the
  uncategorized list, or to the first category configured without labels when there is
  one: \<open>routed\<close> is what it pushes, in order, and \<open>filteredPullRequests\<close> what it keeps.
\<close>

definition categorizePullRequests ::
  "pull_request list \<Rightarrow> config \<Rightarrow> pull_request list \<times> (category \<times> pull_request list) list" where
  "categorizePullRequests pullRequests cfg =
     (let allCategoryLabels = concat (map cat_labels (categories cfg));
          uncategorizedCategoryIndex =
            findIndex (\<lambda>category. length (cat_labels category) = 0) (categories cfg);
          isUncategorized = (\<lambda>pullRequest.
            length (labels pullRequest) = 0 \<or>
            \<not> list_ex (\<lambda>l. l \<in> set allCategoryLabels) (labels pullRequest));
          candidates =
            filter (getFilterIncludedPullRequests (include_labels cfg))
              (filter (getFilterExcludedPullRequests (exclude_labels cfg)) pullRequests);
          routed = filter isUncategorized candidates;
          filteredPullRequests = filter (\<lambda>pullRequest. \<not> isUncategorized pullRequest) candidates;
          uncategorizedPullRequests = (if uncategorizedCategoryIndex = None then routed else []);
          categorizedPullRequests =
            map (\<lambda>(index, category).
                   (category,
                    (if uncategorizedCategoryIndex = Some index then routed else []) @
                    filter (\<lambda>pullRequest.
                              list_ex (\<lambda>l. l \<in> set (cat_labels category)) (labels pullRequest))
                      filteredPullRequests))
              (enumerate 0 (categories cfg))
      in (uncategorizedPullRequests, categorizedPullRequests))"

section \<open>escapeTitle\<close>

text \<open>\<^verbatim>\<open>.\<close> in a regular expression matches any code unit but a line terminator.\<close>

definition line_terminator :: "char \<Rightarrow> bool" where
  "line_terminator c = (c = CHR 0x0A \<or> c = CHR 0x0D)"

text \<open>The replacement callback of \<^verbatim>\<open>escapeTitle\<close>, given the matched text.\<close>

definition escape_replacement :: "string \<Rightarrow> string" where
  "escape_replacement match =
     (if length match > 1 then match
      else if match = ''@'' \<or> match = ''#'' then match @ ''<!---->''
      else CHR 0x5C # match)"

text \<open>
  The second alternative of the pattern, \<^verbatim>\<open>`.*?`\<close>, tried just after an opening back-tick:
  the lazy star stops at the first back-tick, and fails when a line terminator comes
  first or no back-tick follows. The result is the text between the back-ticks and the
  text after the closing one.
\<close>

definition code_span :: "string \<Rightarrow> (string \<times> string) option" where
  "code_span cs =
     (case dropWhile (\<lambda>x. x \<noteq> CHR 0x60 \<and> \<not> line_terminator x) cs of
        [] \<Rightarrow> None
      | d # post \<Rightarrow>
          if d = CHR 0x60
          then Some (takeWhile (\<lambda>x. x \<noteq> CHR 0x60 \<and> \<not> line_terminator x) cs, post)
          else None)"

text \<open>
  \<^verbatim>\<open>title.replace(new RegExp(`[${regexEscape(escapes)}]|\`.*?\``, 'g'), callback)\<close>, scanning
  from the left. \<^verbatim>\<open>regexEscape\<close> makes every character of \<open>escapes\<close> stand for itself, so
  the class matches exactly the characters of \<open>escapes\<close>; it is the first alternative,
  tried before the code span at each position.
\<close>

function replace_escapes :: "string \<Rightarrow> string \<Rightarrow> string" where
  "replace_escapes escapes [] = []"
| "replace_escapes escapes (c # cs) =
     (if c \<in> set escapes then escape_replacement [c] @ replace_escapes escapes cs
      else if c = CHR 0x60 then
        (case code_span cs of
           Some (inner, post) \<Rightarrow>
             escape_replacement (c # inner @ [CHR 0x60]) @ replace_escapes escapes post
         | None \<Rightarrow> c # replace_escapes escapes cs)
      else c # replace_escapes escapes cs)"
  by pat_completeness auto
termination
proof (relation "measure (\<lambda>(escapes, s). length s)")
  fix escapes :: string and c :: char and cs inner post :: string and x2 :: "string \<times> string"
  let ?p = "\<lambda>x. x \<noteq> CHR 0x60 \<and> \<not> line_terminator x"
  assume "code_span cs = Some x2" and "(inner, post) = x2"
  then obtain d where "dropWhile ?p cs = d # post"
    by (auto simp: code_span_def split: list.splits if_splits)
  moreover have "length (dropWhile ?p cs) \<le> length cs"
    by (rule length_dropWhile_le)
  ultimately show "((escapes, post), escapes, c # cs) \<in> measure (\<lambda>(escapes, s). length s)"
    by simp
qed auto

definition escapeTitle :: "config \<Rightarrow> string \<Rightarrow> string" where
  "escapeTitle cfg t = replace_escapes (change_title_escapes cfg) t"

text \<open>The rule of the specification for one character outside a code span: a character
  of the escape set gets a backslash in front, except \<^verbatim>\<open>@\<close> and \<^verbatim>\<open>#\<close>, which get
  \<^verbatim>\<open><!---->\<close> behind; any other character stays.\<close>

definition escaped_char :: "string \<Rightarrow> char \<Rightarrow> string" where
  "escaped_char escapes c =
     (if c \<in> set escapes
      then (if c = CHR ''@'' \<or> c = CHR ''#'' then c # ''<!---->'' else [CHR 0x5C, c])
      else [c])"

section \<open>Version information and templates\<close>

text \<open>What \<^verbatim>\<open>semver.parse\<close> returns: the three numbers and the pre-release components, each
  a number or a string.\<close>

datatype prerelease_part = PNum nat | PStr string

record semver =
  sv_major :: nat
  sv_minor :: nat
  sv_patch :: nat
  sv_prerelease :: "prerelease_part list"

text \<open>The fields of \<^verbatim>\<open>versionInfo.$RESOLVED_VERSION\<close> that the engine reads or writes.\<close>

record resolved_version =
  rv_version :: string
  rv_MAJOR :: nat
  rv_MINOR :: nat
  rv_PATCH :: nat
  rv_PRERELEASE :: string
  rv_COMPLETE :: string

text \<open>What \<^verbatim>\<open>getVersionInfo\<close> returns: \<^verbatim>\<open>$RESOLVED_VERSION\<close> and the other tokens, which
  the engine only hands to \<^verbatim>\<open>template\<close>.\<close>

record version_info =
  RESOLVED_VERSION :: "resolved_version option"
  other_tokens :: "(string \<times> string) list"

text \<open>The objects given to \<^verbatim>\<open>template\<close> at its four kinds of call sites: a change
  (\<^verbatim>\<open>$TITLE\<close>, \<^verbatim>\<open>$NUMBER\<close>, \<^verbatim>\<open>$AUTHOR\<close>, \<^verbatim>\<open>$BODY\<close>, \<^verbatim>\<open>$URL\<close>, \<^verbatim>\<open>$BASE_REF_NAME\<close>,
  \<^verbatim>\<open>$HEAD_REF_NAME\<close>), a category title, a version information, and the tokens of the
  body (\<^verbatim>\<open>$PREVIOUS_TAG\<close>, \<^verbatim>\<open>$CHANGES\<close>, \<^verbatim>\<open>$CONTRIBUTORS\<close>, \<^verbatim>\<open>$OWNER\<close>,
  \<^verbatim>\<open>$REPOSITORY\<close> and the version information spread after them).\<close>

datatype template_object =
    ChangeTokens string nat string string string string string
  | CategoryTokens string
  | VersionTokens "version_info option"
  | BodyTokens string string string string string "version_info option"

text \<open>
  The functions of other modules are parameters: \<open>template string object replacers\<close> is
  \<^verbatim>\<open>template\<close> of \<^verbatim>\<open>./template\<close>, a pure function to a string (no replacers is \<open>[]\<close>);
  \<open>getVersionInfo\<close> is that of \<^verbatim>\<open>./versions\<close>, which returns a version information or
  nothing, or raises (\<open>Inl\<close>); \<open>semver_parse\<close> is \<^verbatim>\<open>semver.parse\<close>, which returns
  \<^verbatim>\<open>null\<close> on a string that is no version.
\<close>

datatype exception = Exception string

type_synonym template_fn = "string \<Rightarrow> template_object \<Rightarrow> (string \<times> string) list \<Rightarrow> string"

type_synonym getVersionInfo_fn =
  "release option \<Rightarrow> string \<Rightarrow> string option \<Rightarrow> string \<Rightarrow> string \<Rightarrow> string
     \<Rightarrow> exception + version_info option"

type_synonym semver_parse_fn = "string \<Rightarrow> semver option"

section \<open>generateChangeLog\<close>

definition pullRequestToString :: "template_fn \<Rightarrow> config \<Rightarrow> pull_request list \<Rightarrow> string" where
  "pullRequestToString template cfg pullRequests =
     join [CHR 0x0A]
       (map (\<lambda>pullRequest.
               (let pullAuthor =
                      (case pr_author pullRequest of
                         None \<Rightarrow> ''ghost''
                       | Some a \<Rightarrow>
                           if typename a \<noteq> [] \<and> typename a = ''Bot''
                           then ''['' @ login a @ ''[bot]]('' @ author_url a @ '')''
                           else login a)
                in template (change_template cfg)
                     (ChangeTokens (escapeTitle cfg (title pullRequest)) (number pullRequest)
                        pullAuthor (pr_body pullRequest) (url pullRequest)
                        (baseRefName pullRequest) (headRefName pullRequest)) []))
          pullRequests)"

definition generateChangeLog :: "template_fn \<Rightarrow> pull_request list \<Rightarrow> config \<Rightarrow> string" where
  "generateChangeLog template mergedPullRequests cfg =
     (if length mergedPullRequests = 0 then no_changes_template cfg
      else
        (let (uncategorizedPullRequests, categorizedPullRequests) =
               categorizePullRequests mergedPullRequests cfg;
             changeLog0 =
               (if length uncategorizedPullRequests > 0
                then [pullRequestToString template cfg uncategorizedPullRequests, [CHR 0x0A, CHR 0x0A]]
                else []);
             changeLog =
               changeLog0 @
               concat (map (\<lambda>(index, category, pullRequests).
                 if length pullRequests = 0 then []
                 else
                   (let pullRequestString = pullRequestToString template cfg pullRequests;
                        shouldCollapse =
                          (collapse_after category \<noteq> 0 \<and>
                           length pullRequests > collapse_after category)
                    in [template (category_template cfg) (CategoryTokens (cat_title category)) [],
                        [CHR 0x0A, CHR 0x0A]] @
                       (if shouldCollapse
                        then [''<details>'', [CHR 0x0A],
                              ''<summary>'' @ string_of_nat (length pullRequests) @ '' changes</summary>'',
                              [CHR 0x0A, CHR 0x0A], pullRequestString, [CHR 0x0A], ''</details>'']
                        else [pullRequestString]) @
                       (if index + 1 \<noteq> length categorizedPullRequests
                        then [[CHR 0x0A, CHR 0x0A]] else [])))
                 (enumerate 0 categorizedPullRequests))
         in js_trim (concat changeLog)))"

section \<open>contributorsSentence\<close>

text \<open>\<^verbatim>\<open>contributors.add(x)\<close> on a set listed in insertion order.\<close>

definition set_add :: "'a \<Rightarrow> 'a list \<Rightarrow> 'a list" where
  "set_add x xs = (if x \<in> set xs then xs else xs @ [x])"

definition contributorsSentence :: "commit list \<Rightarrow> pull_request list \<Rightarrow> config \<Rightarrow> string" where
  "contributorsSentence cs pullRequests cfg =
     (let excludeContributors = exclude_contributors cfg;
          contributors1 =
            foldl (\<lambda>contributors c.
                     case user_login c of
                       Some l \<Rightarrow>
                         if l \<notin> set excludeContributors then set_add (''@'' @ l) contributors
                         else contributors
                     | None \<Rightarrow> set_add (author_name c) contributors)
              [] cs;
          contributors2 =
            foldl (\<lambda>contributors pullRequest.
                     case pr_author pullRequest of
                       Some a \<Rightarrow>
                         if login a \<notin> set excludeContributors
                         then (if typename a = ''Bot''
                               then set_add (''['' @ login a @ ''[bot]]('' @ author_url a @ '')'')
                                      contributors
                               else set_add (''@'' @ login a) contributors)
                         else contributors
                     | None \<Rightarrow> contributors)
              contributors1 pullRequests;
          sortedContributors = sort contributors2
      in if length sortedContributors > 1
         then join '', '' (butlast sortedContributors) @ '' and '' @ last sortedContributors
         else if length sortedContributors = 1 then hd sortedContributors
         else no_contributors_template cfg)"

section \<open>generateReleaseInfo\<close>

text \<open>The arguments of \<^verbatim>\<open>generateReleaseInfo\<close>; \<open>owner\<close> and \<open>repo\<close> are what
  \<^verbatim>\<open>context.repo()\<close> returns, \<open>prNumber\<close> is \<open>None\<close> for \<^verbatim>\<open>null\<close>.\<close>

record input =
  owner :: string
  repo :: string
  commits :: "commit list"
  config :: config
  lastRelease :: "release option"
  mergedPullRequests :: "pull_request list"
  version :: "string option"
  tag :: "string option"
  name :: "string option"
  isPreRelease :: bool
  latest :: "string option"
  shouldDraft :: bool
  targetCommitish :: string
  prNumber :: "nat option"
  prSpecificRelease :: "release option"

text \<open>The returned descriptor, field by field.\<close>

record release_info =
  info_name :: "string option"
  info_tag :: "string option"
  info_body :: string
  info_targetCommitish :: string
  info_prerelease :: bool
  info_make_latest :: "string option"
  info_draft :: bool
  info_resolvedVersion :: "string option"
  info_majorVersion :: "nat option"
  info_minorVersion :: "nat option"
  info_patchVersion :: "nat option"
  info_foundPrSpecificDraft :: bool

text \<open>The calls of \<^verbatim>\<open>log\<close> and \<^verbatim>\<open>core.debug\<close> in \<^verbatim>\<open>generateReleaseInfo\<close>, one
  constructor per call site, in the order of the source:
  ``Found existing draft release ... Incrementing suffix.'',
  ``Incremented prerelease version for PR ...'',
  ``Error processing draft tag ... Falling back to standard versioning.'',
  ``versionKeyIncrement: ...'', ``versionInfo (standard calc): ...'',
  ``Could not resolve version.'', ``First prerelease for PR ...'',
  ``Final tag: ...'', ``Final name: ...'' and
  ``... is not supported as release target, falling back to default branch''.\<close>

datatype log_event =
    LogFoundExistingDraft
  | LogIncrementedPrerelease
  | LogErrorProcessingDraftTag
  | DebugVersionKeyIncrement
  | DebugVersionInfoStandardCalc
  | LogCouldNotResolveVersion
  | LogFirstPrerelease
  | DebugFinalTag
  | DebugFinalName
  | LogNotSupportedAsReleaseTarget

text \<open>The local variables of \<^verbatim>\<open>generateReleaseInfo\<close>, with the messages logged so far.
  \<open>versionInfo\<close> is the variable declared by \<^verbatim>\<open>let versionInfo = null\<close> at the top of the
  function.\<close>

record locals =
  versionInfo :: "version_info option"
  resolvedVersion :: "string option"
  majorVersion :: "nat option"
  minorVersion :: "nat option"
  patchVersion :: "nat option"
  calculatedTag :: "string option"
  calculatedName :: "string option"
  body_text :: string
  prSpecificDraftExists :: bool
  markerAdded :: bool
  logged :: "log_event list"

definition initial_locals :: "input \<Rightarrow> locals" where
  "initial_locals inp =
     \<lparr> versionInfo = None, resolvedVersion = None, majorVersion = None, minorVersion = None,
       patchVersion = None, calculatedTag = tag inp, calculatedName = name inp, body_text = [],
       prSpecificDraftExists = False, markerAdded = False, logged = [] \<rparr>"

text \<open>\<^verbatim>\<open>a || b\<close> on optional strings: \<open>a\<close> when it is a non-empty string, else \<open>b\<close>.\<close>

definition js_or :: "string option \<Rightarrow> string option \<Rightarrow> string option" where
  "js_or a b = (case a of Some s \<Rightarrow> if s \<noteq> [] then a else b | None \<Rightarrow> b)"

definition isPrereleaseRun :: "input \<Rightarrow> bool" where
  "isPrereleaseRun inp =
     (isPreRelease inp \<and> prerelease_identifier (config inp) \<noteq> [] \<and> prNumber inp \<noteq> None)"

text \<open>The marker appended to the body: \<^verbatim>\<open>`\n\n<!-- pr-number: ${prNumber} -->\n`\<close>.\<close>

definition pr_marker :: "nat option \<Rightarrow> string" where
  "pr_marker n =
     [CHR 0x0A, CHR 0x0A] @ ''<!-- pr-number: '' @
     (case n of Some k \<Rightarrow> string_of_nat k | None \<Rightarrow> ''null'') @ '' -->'' @ [CHR 0x0A]"

text \<open>The computation of the tag, written twice in the source (in the pre-release logic
  and in the standard calculation): the tag template, with the tag prefix put in front of a
  result that lacks it, or the explicit tag as a template.\<close>

definition templateTag ::
  "template_fn \<Rightarrow> config \<Rightarrow> string option \<Rightarrow> version_info option \<Rightarrow> string" where
  "templateTag template cfg calculatedTag0 vi =
     (case calculatedTag0 of
        None \<Rightarrow>
          (let t = template (tag_template cfg) (VersionTokens vi) []
           in if tag_prefix cfg \<noteq> [] \<and> \<not> prefix (tag_prefix cfg) t then tag_prefix cfg @ t else t)
      | Some t \<Rightarrow> template t (VersionTokens vi) [])"

text \<open>The computation of the name, written twice as well.\<close>

definition templateName ::
  "template_fn \<Rightarrow> config \<Rightarrow> string option \<Rightarrow> version_info option \<Rightarrow> string" where
  "templateName template cfg calculatedName0 vi =
     (case calculatedName0 of
        None \<Rightarrow> template (name_template cfg) (VersionTokens vi) []
      | Some n \<Rightarrow> template n (VersionTokens vi) [])"

text \<open>
  The block between ``START'' and ``END PR-SPECIFIC PRE-RELEASE LOGIC''. The version
  information it computes is a constant of the inner block
  (\<^verbatim>\<open>const versionInfo = getVersionInfo(...)\<close>), so the function's variable \<open>versionInfo\<close>
  is not assigned. An exception of \<open>getVersionInfo\<close> is caught; the assignments made
  before it stay.
\<close>

definition prereleaseLogic ::
  "semver_parse_fn \<Rightarrow> getVersionInfo_fn \<Rightarrow> template_fn \<Rightarrow> input \<Rightarrow> locals \<Rightarrow> locals" where
  "prereleaseLogic semver_parse getVersionInfo template inp st =
     (case prSpecificRelease inp of
        None \<Rightarrow> st
      | Some rel \<Rightarrow>
          if \<not> isPrereleaseRun inp then st
          else
            (let cfg = config inp;
                 preReleaseIdentifier = prerelease_identifier cfg;
                 tagPrefix = tag_prefix cfg;
                 st1 = st\<lparr>prSpecificDraftExists := True, logged := logged st @ [LogFoundExistingDraft]\<rparr>;
                 currentTag = tag_name rel;
                 currentVersionStr =
                   (if tagPrefix \<noteq> [] \<and> prefix tagPrefix currentTag
                    then drop (length tagPrefix) currentTag else currentTag)
             in case semver_parse currentVersionStr of
                  None \<Rightarrow> st1
                | Some parsedVersion \<Rightarrow>
                    if length (sv_prerelease parsedVersion) \<ge> 2 \<and>
                       sv_prerelease parsedVersion ! 0 = PStr preReleaseIdentifier
                    then
                      (case sv_prerelease parsedVersion ! 1 of
                         PStr s \<Rightarrow> st1
                       | PNum currentSuffix \<Rightarrow>
                           (let nextSuffix = currentSuffix + 1;
                                st2 = st1\<lparr>
                                  resolvedVersion := Some
                                    (string_of_nat (sv_major parsedVersion) @ ''.'' @
                                     string_of_nat (sv_minor parsedVersion) @ ''.'' @
                                     string_of_nat (sv_patch parsedVersion) @ ''-'' @
                                     preReleaseIdentifier @ ''.'' @ string_of_nat nextSuffix),
                                  majorVersion := Some (sv_major parsedVersion),
                                  minorVersion := Some (sv_minor parsedVersion),
                                  patchVersion := Some (sv_patch parsedVersion)\<rparr>;
                                versionKeyIncrement =
                                  resolveVersionKeyIncrement (mergedPullRequests inp) cfg
                                    (isPreRelease inp)
                            in case getVersionInfo (Some rel) (version_template cfg)
                                      (js_or (js_or (version inp) (tag inp)) (name inp))
                                      versionKeyIncrement (tag_prefix cfg)
                                      (prerelease_identifier cfg) of
                                 Inl error \<Rightarrow>
                                   st2\<lparr>prSpecificDraftExists := False,
                                       logged := logged st2 @ [LogErrorProcessingDraftTag]\<rparr>
                               | Inr innerVersionInfo \<Rightarrow>
                                   st2\<lparr>
                                     calculatedTag := Some
                                       (templateTag template cfg (calculatedTag st2) innerVersionInfo),
                                     calculatedName := Some
                                       (templateName template cfg (calculatedName st2)
                                          innerVersionInfo),
                                     logged := logged st2 @ [LogIncrementedPrerelease]\<rparr>))
                    else st1))"

text \<open>How a block ends: it goes on with the locals, the function returns \<^verbatim>\<open>null\<close>, or an
  exception leaves the function; the last two keep the messages logged.\<close>

datatype completion =
    Continue locals
  | ReturnNull "log_event list"
  | Thrown exception "log_event list"

text \<open>The block ``Standard Version Calculation (if not overridden above)'', guarded by
  \<^verbatim>\<open>versionInfo === null\<close>.\<close>

definition standardVersionCalculation ::
  "getVersionInfo_fn \<Rightarrow> template_fn \<Rightarrow> input \<Rightarrow> locals \<Rightarrow> completion" where
  "standardVersionCalculation getVersionInfo template inp st =
     (if versionInfo st = None then
        (let cfg = config inp;
             preReleaseIdentifier = prerelease_identifier cfg;
             versionKeyIncrement =
               resolveVersionKeyIncrement (mergedPullRequests inp) cfg (isPreRelease inp);
             st1 = st\<lparr>logged := logged st @ [DebugVersionKeyIncrement]\<rparr>
         in case getVersionInfo (lastRelease inp) (version_template cfg)
                   (js_or (js_or (version inp) (tag inp)) (name inp))
                   versionKeyIncrement (tag_prefix cfg) preReleaseIdentifier of
              Inl error \<Rightarrow> Thrown error (logged st1)
            | Inr vi \<Rightarrow>
                (let st2 = st1\<lparr>versionInfo := vi,
                              logged := logged st1 @ [DebugVersionInfoStandardCalc]\<rparr>
                 in case vi of
                      None \<Rightarrow> ReturnNull (logged st2 @ [LogCouldNotResolveVersion])
                    | Some v \<Rightarrow>
                        (case RESOLVED_VERSION v of
                           None \<Rightarrow> ReturnNull (logged st2 @ [LogCouldNotResolveVersion])
                         | Some rv \<Rightarrow>
                             (let st3 = st2\<lparr>resolvedVersion := Some (rv_version rv),
                                           majorVersion := Some (rv_MAJOR rv),
                                           minorVersion := Some (rv_MINOR rv),
                                           patchVersion := Some (rv_PATCH rv)\<rparr>;
                                  st4 =
                                    (if isPrereleaseRun inp \<and> \<not> prSpecificDraftExists st3 then
                                       (let baseVersion =
                                              string_of_nat (rv_MAJOR rv) @ ''.'' @
                                              string_of_nat (rv_MINOR rv) @ ''.'' @
                                              string_of_nat (rv_PATCH rv);
                                            firstVersion =
                                              baseVersion @ ''-'' @ preReleaseIdentifier @ ''.0''
                                        in st3\<lparr>
                                             resolvedVersion := Some firstVersion,
                                             versionInfo := Some (v\<lparr>RESOLVED_VERSION := Some
                                               (rv\<lparr>rv_version := firstVersion,
                                                   rv_PRERELEASE := ''-'' @ preReleaseIdentifier @ ''.0'',
                                                   rv_COMPLETE := firstVersion\<rparr>)\<rparr>),
                                             body_text := body_text st3 @ pr_marker (prNumber inp),
                                             markerAdded := True,
                                             logged := logged st3 @ [LogFirstPrerelease]\<rparr>)
                                     else st3);
                                  st5 = st4\<lparr>calculatedTag := Some
                                    (templateTag template cfg (calculatedTag st4) (versionInfo st4))\<rparr>
                              in Continue
                                   (st5\<lparr>calculatedName := Some
                                      (templateName template cfg (calculatedName st5)
                                         (versionInfo st5))\<rparr>)))))
      else Continue st)"

text \<open>The rest of the function: the marker when it is not in the body yet, the body from
  the templates, the clean-up of the target and the descriptor.\<close>

definition buildReleaseInfo ::
  "template_fn \<Rightarrow> input \<Rightarrow> locals \<Rightarrow> log_event list \<times> release_info" where
  "buildReleaseInfo template inp st =
     (let cfg = config inp;
          body1 =
            (if isPrereleaseRun inp \<and> \<not> markerAdded st
             then body_text st @ pr_marker (prNumber inp) else body_text st);
          generatedBody =
            template (header cfg @ body_template cfg @ footer cfg)
              (BodyTokens
                 (case lastRelease inp of Some r \<Rightarrow> tag_name r | None \<Rightarrow> [])
                 (generateChangeLog template (mergedPullRequests inp) cfg)
                 (contributorsSentence (commits inp) (mergedPullRequests inp) cfg)
                 (owner inp) (repo inp) (versionInfo st))
              (replacers cfg);
          body2 = generatedBody @ body1;
          log1 = logged st @ [DebugFinalTag, DebugFinalName];
          unsupported = prefix ''refs/tags/'' (targetCommitish inp);
          log2 = (if unsupported then log1 @ [LogNotSupportedAsReleaseTarget] else log1);
          targetCommitish1 = (if unsupported then [] else targetCommitish inp)
      in (log2,
          \<lparr> info_name = calculatedName st,
            info_tag = calculatedTag st,
            info_body = js_trim body2,
            info_targetCommitish = targetCommitish1,
            info_prerelease = isPreRelease inp,
            info_make_latest = latest inp,
            info_draft = shouldDraft inp,
            info_resolvedVersion = resolvedVersion st,
            info_majorVersion = majorVersion st,
            info_minorVersion = minorVersion st,
            info_patchVersion = patchVersion st,
            info_foundPrSpecificDraft = prSpecificDraftExists st \<rparr>))"

text \<open>\<^verbatim>\<open>generateReleaseInfo\<close>: the messages logged, and the descriptor (\<open>Inr (Some d)\<close>),
  \<^verbatim>\<open>null\<close> (\<open>Inr None\<close>) or the exception that left the function (\<open>Inl\<close>).\<close>

definition generateReleaseInfo ::
  "semver_parse_fn \<Rightarrow> getVersionInfo_fn \<Rightarrow> template_fn \<Rightarrow> input
     \<Rightarrow> log_event list \<times> (exception + release_info option)" where
  "generateReleaseInfo semver_parse getVersionInfo template inp =
     (case standardVersionCalculation getVersionInfo template inp
             (prereleaseLogic semver_parse getVersionInfo template inp (initial_locals inp)) of
        Thrown error l \<Rightarrow> (l, Inl error)
      | ReturnNull l \<Rightarrow> (l, Inr None)
      | Continue st \<Rightarrow>
          (case buildReleaseInfo template inp st of (l, d) \<Rightarrow> (l, Inr (Some d))))"

section \<open>Inputs and stand-ins of the examples\<close>

text \<open>A configuration whose templates hold no token.\<close>

definition example_config :: config where
  "example_config =
     \<lparr> prerelease_identifier = ''beta'', tag_prefix = ''v'', version_template = '''',
       tag_template = '''', name_template = ''Preview'', replacers = [],
       exclude_labels = [''skip-changelog''], include_labels = [], exclude_contributors = [],
       categories =
         [\<lparr>cat_title = ''Features'', cat_labels = [''feature''], collapse_after = 0\<rparr>,
          \<lparr>cat_title = ''Bug Fixes'', cat_labels = [''bug''], collapse_after = 0\<rparr>],
       change_title_escapes = ''#@'', change_template = ''* change'',
       category_template = ''## Changes'', no_changes_template = ''* No changes'',
       no_contributors_template = ''No contributors'', header = '''',
       body_template = ''Release notes'', footer = '''',
       patch_labels = [''patch''], minor_labels = [''minor''], major_labels = [''major''],
       default_key = ''patch'' \<rparr>"

definition pr_labelled :: "nat \<Rightarrow> string list \<Rightarrow> pull_request" where
  "pr_labelled n ls =
     \<lparr> title = ''Change'', number = n, pr_author = None, pr_body = '''', url = '''',
       baseRefName = ''main'', headRefName = ''topic'', labels = ls \<rparr>"

definition published :: "string \<Rightarrow> int \<Rightarrow> release" where
  "published t created =
     \<lparr> tag_name = t, created_at = created, target_commitish = ''main'', draft = False,
       prerelease = False, body = Some ''Release notes'' \<rparr>"

text \<open>A pre-release draft of change request 42.\<close>

definition draft_for_42 :: "string \<Rightarrow> release" where
  "draft_for_42 t =
     \<lparr> tag_name = t, created_at = 2000, target_commitish = ''main'', draft = True,
       prerelease = True,
       body = Some (''Release notes'' @ [CHR 0x0A, CHR 0x0A] @ ''<!-- pr-number: 42 -->'') \<rparr>"

text \<open>A pre-release run for change request 42 whose draft has the tag \<open>t\<close>; the last
  release is \<^verbatim>\<open>v1.1.0\<close>.\<close>

definition run_with_draft :: "string \<Rightarrow> input" where
  "run_with_draft t =
     \<lparr> owner = ''octo'', repo = ''demo'', commits = [], config = example_config,
       lastRelease = Some (published ''v1.1.0'' 1000),
       mergedPullRequests = [pr_labelled 7 [''bug'']],
       version = None, tag = None, name = None, isPreRelease = True, latest = Some ''false'',
       shouldDraft = True, targetCommitish = ''refs/heads/main'', prNumber = Some 42,
       prSpecificRelease = Some (draft_for_42 t) \<rparr>"




text \<open>\<^verbatim>\<open>s.split(sep)\<close> for a separator of one character.\<close>

fun split_on :: "char \<Rightarrow> string \<Rightarrow> string list" where
  "split_on sep [] = [[]]"
| "split_on sep (c # cs) =
     (if c = sep then [] # split_on sep cs
      else (case split_on sep cs of [] \<Rightarrow> [[c]] | w # ws \<Rightarrow> (c # w) # ws))"

definition all_digits :: "string \<Rightarrow> bool" where
  "all_digits s = (s \<noteq> [] \<and> list_all is_digit s)"

text \<open>Stand-in for \<^verbatim>\<open>semver.parse\<close>: its value on the strings \<^verbatim>\<open>MAJOR.MINOR.PATCH\<close> and
  \<^verbatim>\<open>MAJOR.MINOR.PATCH-a.b...\<close>, \<^verbatim>\<open>null\<close> on a string of another form.\<close>

definition example_semver_parse :: semver_parse_fn where
  "example_semver_parse s =
     (let core = takeWhile (\<lambda>c. c \<noteq> CHR ''-'') s;
          plain = (length core = length s);
          pre = split_on (CHR ''.'') (drop (length core + 1) s);
          nums = split_on (CHR ''.'') core
      in if length nums = 3 \<and> list_all all_digits nums \<and> (plain \<or> list_all (\<lambda>p. p \<noteq> []) pre)
         then Some \<lparr> sv_major = parseInt (nums ! 0), sv_minor = parseInt (nums ! 1),
                     sv_patch = parseInt (nums ! 2),
                     sv_prerelease =
                       (if plain then []
                        else map (\<lambda>p. if all_digits p then PNum (parseInt p) else PStr p) pre) \<rparr>
         else None)"

text \<open>Stand-in for \<^verbatim>\<open>getVersionInfo\<close>: from the tag of the release, the next pre-release
  under the identifier (\<^verbatim>\<open>1.1.0\<close> gives \<^verbatim>\<open>1.1.1-beta.0\<close>, \<^verbatim>\<open>1.2.0-beta.3\<close> gives
  \<^verbatim>\<open>1.2.0-beta.4\<close>); nothing without a release or for a tag that is no version.\<close>

definition example_getVersionInfo :: getVersionInfo_fn where
  "example_getVersionInfo rel versionTemplate inputVersion versionKeyIncrement tagPrefix identifier =
     Inr (case rel of
            None \<Rightarrow> None
          | Some r \<Rightarrow>
              (case example_semver_parse (remove_prefix tagPrefix (tag_name r)) of
                 None \<Rightarrow> None
               | Some v \<Rightarrow>
                   (let bumped = (sv_prerelease v = []);
                        p = (if bumped then sv_patch v + 1 else sv_patch v);
                        suffix_text =
                          (case sv_prerelease v of
                             [PStr i, PNum n] \<Rightarrow> ''-'' @ i @ ''.'' @ string_of_nat (n + 1)
                           | _ \<Rightarrow> ''-'' @ identifier @ ''.0'');
                        complete =
                          string_of_nat (sv_major v) @ ''.'' @ string_of_nat (sv_minor v) @ ''.'' @
                          string_of_nat p @ suffix_text
                    in Some \<lparr> RESOLVED_VERSION = Some
                                \<lparr> rv_version = complete, rv_MAJOR = sv_major v,
                                  rv_MINOR = sv_minor v, rv_PATCH = p,
                                  rv_PRERELEASE = suffix_text, rv_COMPLETE = complete \<rparr>,
                              other_tokens = [] \<rparr>)))"

text \<open>Stand-in for \<^verbatim>\<open>template\<close>: a string without tokens, rendered with no replacers, is
  the string itself.\<close>

definition example_template :: template_fn where
  "example_template s object rs = s"

text \<open>Stand-in for \<^verbatim>\<open>compareVersions\<close> on the tags of the examples: versions of one to
  three numbers are compared number by number, a missing number counting as zero; a tag
  that does not start with a digit is no version and raises.\<close>

definition version_numbers :: "string \<Rightarrow> nat list option" where
  "version_numbers s =
     (let ps = split_on (CHR ''.'') s
      in if length ps \<le> 3 \<and> list_all all_digits ps then Some (map parseInt ps) else None)"

fun compare_numbers :: "nat list \<Rightarrow> nat list \<Rightarrow> int" where
  "compare_numbers [] [] = 0"
| "compare_numbers (a # as) [] = (if a > 0 then 1 else compare_numbers as [])"
| "compare_numbers [] (b # bs) = (if b > 0 then - 1 else compare_numbers [] bs)"
| "compare_numbers (a # as) (b # bs) =
     (if a > b then 1 else if b > a then - 1 else compare_numbers as bs)"

definition example_compareVersions :: "string \<Rightarrow> string \<Rightarrow> int option" where
  "example_compareVersions v1 v2 =
     (case (version_numbers v1, version_numbers v2) of
        (Some a, Some b) \<Rightarrow> Some (compare_numbers a b)
      | _ \<Rightarrow> None)"

section \<open>The release matcher on an empty list\<close>

text \<open>
  Claim C8. For an empty list of releases \<^verbatim>\<open>findReleases\<close> returns no last release and
  no release of the change request, whatever its other arguments: an ordinary result, a
  pair of two absent values, with no exception on the way.
\<close>

theorem findReleases_empty:
  "findReleases compareVersions [] target byCommitish withPreReleases tp n preRun = (None, None)"
  by (simp add: findReleases_def sortReleases_def array_sort_def last_element_def)

theorem findReleases_empty_witness:
  "findReleases example_compareVersions [] ''refs/heads/main'' True False ''v'' (Some 42) True
     = (None, None)"
  by (rule findReleases_empty)

section \<open>The marker in the body of a pre-release run\<close>

text \<open>The pre-release logic assigns neither the function's \<open>versionInfo\<close> nor the body.\<close>

lemma prereleaseLogic_keeps:
  "versionInfo (prereleaseLogic sp gv t inp st) = versionInfo st"
  "body_text (prereleaseLogic sp gv t inp st) = body_text st"
  "markerAdded (prereleaseLogic sp gv t inp st) = markerAdded st"
  by (simp_all add: prereleaseLogic_def Let_def
        split: option.splits prerelease_part.splits sum.splits)


lemma standardVersionCalculation_flag:
  assumes "standardVersionCalculation gv t inp st = Continue st'"
  shows "prSpecificDraftExists st' = prSpecificDraftExists st"
  using assms
  by (auto simp: standardVersionCalculation_def Let_def
        split: option.splits sum.splits if_splits)



















section \<open>The target of the release\<close>

text \<open>Nothing before the final clean-up reads the target.\<close>

lemma blocks_ignore_target:
  "initial_locals (inp\<lparr>targetCommitish := tc\<rparr>) = initial_locals inp"
  "prereleaseLogic sp gv t (inp\<lparr>targetCommitish := tc\<rparr>) st = prereleaseLogic sp gv t inp st"
  "standardVersionCalculation gv t (inp\<lparr>targetCommitish := tc\<rparr>) st =
     standardVersionCalculation gv t inp st"
  by (simp_all add: initial_locals_def prereleaseLogic_def standardVersionCalculation_def
        isPrereleaseRun_def Let_def
        cong: option.case_cong sum.case_cong prerelease_part.case_cong if_cong)

lemma buildReleaseInfo_target:
  "snd (buildReleaseInfo t (inp\<lparr>targetCommitish := tc\<rparr>) st) =
     (snd (buildReleaseInfo t inp st))
       \<lparr>info_targetCommitish := (if prefix ''refs/tags/'' tc then [] else tc)\<rparr>"
  by (auto simp: buildReleaseInfo_def Let_def isPrereleaseRun_def)

lemma buildReleaseInfo_target_value:
  "info_targetCommitish (snd (buildReleaseInfo t inp st)) =
     (if prefix ''refs/tags/'' (targetCommitish inp) then [] else targetCommitish inp)"
  by (simp add: buildReleaseInfo_def Let_def)

text \<open>
  Claim C10. A run differs from the run on another target only in the target of its
  descriptor, which is the empty string when the target given starts with
  \<^verbatim>\<open>refs/tags/\<close> and the target given otherwise; every other field, and whether a
  descriptor is returned at all, is the same.
\<close>

theorem generateReleaseInfo_targetCommitish:
  "snd (generateReleaseInfo sp gv t (inp\<lparr>targetCommitish := tc\<rparr>)) =
     map_sum id (map_option (\<lambda>d. d\<lparr>info_targetCommitish :=
         (if prefix ''refs/tags/'' tc then [] else tc)\<rparr>))
       (snd (generateReleaseInfo sp gv t inp))
   \<and> (case snd (generateReleaseInfo sp gv t inp) of
        Inr (Some d) \<Rightarrow>
          info_targetCommitish d =
            (if prefix ''refs/tags/'' (targetCommitish inp) then [] else targetCommitish inp)
      | _ \<Rightarrow> True)"
proof
  show "snd (generateReleaseInfo sp gv t (inp\<lparr>targetCommitish := tc\<rparr>)) =
     map_sum id (map_option (\<lambda>d. d\<lparr>info_targetCommitish :=
         (if prefix ''refs/tags/'' tc then [] else tc)\<rparr>))
       (snd (generateReleaseInfo sp gv t inp))"
    unfolding generateReleaseInfo_def blocks_ignore_target
    by (cases "standardVersionCalculation gv t inp
                 (prereleaseLogic sp gv t inp (initial_locals inp))")
       (simp_all add: buildReleaseInfo_target case_prod_beta)
  show "case snd (generateReleaseInfo sp gv t inp) of
        Inr (Some d) \<Rightarrow>
          info_targetCommitish d =
            (if prefix ''refs/tags/'' (targetCommitish inp) then [] else targetCommitish inp)
      | _ \<Rightarrow> True"
    unfolding generateReleaseInfo_def
    by (cases "standardVersionCalculation gv t inp
                 (prereleaseLogic sp gv t inp (initial_locals inp))")
       (simp_all add: buildReleaseInfo_target_value case_prod_beta)
qed

theorem generateReleaseInfo_targetCommitish_witness:
  "map_sum id (map_option info_targetCommitish)
     (snd (generateReleaseInfo example_semver_parse example_getVersionInfo example_template
        ((run_with_draft ''v1.2.0-beta.3'')\<lparr>targetCommitish := ''refs/tags/v1.2.0''\<rparr>)))
     = Inr (Some [])
   \<and> map_sum id (map_option info_targetCommitish)
     (snd (generateReleaseInfo example_semver_parse example_getVersionInfo example_template
        (run_with_draft ''v1.2.0-beta.3''))) = Inr (Some ''refs/heads/main'')"
proof -
  let ?inp = "run_with_draft ''v1.2.0-beta.3''"
  let ?run = "\<lambda>i. snd (generateReleaseInfo example_semver_parse example_getVersionInfo
                     example_template i)"
  have "case ?run ?inp of Inr (Some d) \<Rightarrow> True | _ \<Rightarrow> False" by code_simp
  then obtain d where d: "?run ?inp = Inr (Some d)"
    by (auto split: sum.splits option.splits)
  have tc: "targetCommitish ?inp = ''refs/heads/main''" by code_simp
  from generateReleaseInfo_targetCommitish
         [where sp = example_semver_parse and gv = example_getVersionInfo
            and t = example_template and inp = ?inp and tc = "''refs/tags/v1.2.0''"]
  show ?thesis by (simp add: d tc)
qed

section \<open>The two version computations\<close>

text \<open>
  The standard calculation runs in every run: the pre-release logic leaves the function's
  \<open>versionInfo\<close> at \<^verbatim>\<open>null\<close>, so the guard of the standard calculation always holds.
\<close>

lemma standardVersionCalculation_logs:
  assumes "versionInfo st = None"
  shows "DebugVersionKeyIncrement \<in> set
           (case standardVersionCalculation gv t inp st of
              Continue st' \<Rightarrow> logged st' | ReturnNull l \<Rightarrow> l | Thrown e l \<Rightarrow> l)"
  using assms
  by (auto simp: standardVersionCalculation_def Let_def split: option.splits sum.splits)

lemma standard_calculation_always_runs:
  "DebugVersionKeyIncrement \<in> set (fst (generateReleaseInfo sp gv t inp))"
proof -
  let ?st0 = "prereleaseLogic sp gv t inp (initial_locals inp)"
  have "versionInfo ?st0 = None"
    by (simp add: prereleaseLogic_keeps initial_locals_def)
  from standardVersionCalculation_logs [OF this, of gv t inp]
  show ?thesis
    by (auto simp: generateReleaseInfo_def buildReleaseInfo_def Let_def
          split: completion.splits)
qed

text \<open>
  Hence a descriptor that reports the draft of the change request carries the version of
  the standard calculation, computed from the last release, whatever the pre-release logic
  assigned before.
\<close>

lemma standardVersionCalculation_version:
  assumes "standardVersionCalculation gv t inp st = Continue st'"
    and "versionInfo st = None" and "prSpecificDraftExists st"
  shows "\<exists>v rv. gv (lastRelease inp) (version_template (config inp))
                  (js_or (js_or (version inp) (tag inp)) (name inp))
                  (resolveVersionKeyIncrement (mergedPullRequests inp) (config inp)
                     (isPreRelease inp))
                  (tag_prefix (config inp)) (prerelease_identifier (config inp)) = Inr (Some v)
               \<and> RESOLVED_VERSION v = Some rv
               \<and> resolvedVersion st' = Some (rv_version rv)"
  using assms
  by (auto simp: standardVersionCalculation_def Let_def
        split: option.splits sum.splits if_splits)

lemma resolvedVersion_from_standard_calculation:
  assumes "snd (generateReleaseInfo sp gv t inp) = Inr (Some d)"
    and "info_foundPrSpecificDraft d"
  shows "\<exists>v rv. gv (lastRelease inp) (version_template (config inp))
                  (js_or (js_or (version inp) (tag inp)) (name inp))
                  (resolveVersionKeyIncrement (mergedPullRequests inp) (config inp)
                     (isPreRelease inp))
                  (tag_prefix (config inp)) (prerelease_identifier (config inp)) = Inr (Some v)
               \<and> RESOLVED_VERSION v = Some rv
               \<and> info_resolvedVersion d = Some (rv_version rv)"
proof -
  let ?st0 = "prereleaseLogic sp gv t inp (initial_locals inp)"
  from assms(1) obtain st where
    st: "standardVersionCalculation gv t inp ?st0 = Continue st"
    and d: "d = snd (buildReleaseInfo t inp st)"
    by (auto simp: generateReleaseInfo_def split: completion.splits prod.splits)
  have fields: "info_foundPrSpecificDraft d = prSpecificDraftExists st"
    "info_resolvedVersion d = resolvedVersion st"
    by (simp_all add: d buildReleaseInfo_def Let_def)
  have "prSpecificDraftExists ?st0"
    using assms(2) standardVersionCalculation_flag [OF st] by (simp add: fields)
  moreover have "versionInfo ?st0 = None"
    by (simp add: prereleaseLogic_keeps initial_locals_def)
  ultimately show ?thesis
    using standardVersionCalculation_version [OF st] by (simp add: fields)
qed

text \<open>
  A draft whose tag is no version, or has fewer than two pre-release components, or another
  first component than the identifier, or no number as second component, raises nothing:
  the flag set on entry stays.
\<close>

lemma malformed_draft_keeps_flag:
  assumes "prSpecificRelease inp = Some rel" and "isPrereleaseRun inp"
    and "case sp (if tag_prefix (config inp) \<noteq> [] \<and> prefix (tag_prefix (config inp)) (tag_name rel)
                  then drop (length (tag_prefix (config inp))) (tag_name rel) else tag_name rel) of
           None \<Rightarrow> True
         | Some parsed \<Rightarrow>
             length (sv_prerelease parsed) < 2 \<or>
             sv_prerelease parsed ! 0 \<noteq> PStr (prerelease_identifier (config inp)) \<or>
             (\<exists>s. sv_prerelease parsed ! 1 = PStr s)"
    and "snd (generateReleaseInfo sp gv t inp) = Inr (Some d)"
  shows "info_foundPrSpecificDraft d"
proof -
  let ?st0 = "prereleaseLogic sp gv t inp (initial_locals inp)"
  from assms(4) obtain st where
    st: "standardVersionCalculation gv t inp ?st0 = Continue st"
    and d: "d = snd (buildReleaseInfo t inp st)"
    by (auto simp: generateReleaseInfo_def split: completion.splits prod.splits)
  have "prSpecificDraftExists ?st0"
    using assms(1-3)
    by (auto simp: prereleaseLogic_def Let_def split: option.splits)
  then show ?thesis
    using standardVersionCalculation_flag [OF st]
    by (simp add: d buildReleaseInfo_def Let_def)
qed

text \<open>
  Claim C1 (exactly one of the two version computations runs) at a pre-release run for
  change request 42 whose draft is tagged \<^verbatim>\<open>v1.2.0-beta.3\<close>: the messages of the run show
  the suffix increment (``Incremented prerelease version'') and then the standard
  calculation as well (``versionKeyIncrement'', ``versionInfo (standard calc)'').
\<close>

theorem generateReleaseInfo_runs_both_computations:
  "fst (generateReleaseInfo example_semver_parse example_getVersionInfo example_template
          (run_with_draft ''v1.2.0-beta.3'')) =
     [LogFoundExistingDraft, LogIncrementedPrerelease, DebugVersionKeyIncrement,
      DebugVersionInfoStandardCalc, DebugFinalTag, DebugFinalName]"
  by code_simp

text \<open>
  Claim C2 (the resolved version is the draft's version with the suffix incremented) at
  the same run: the draft is tagged \<^verbatim>\<open>v1.2.0-beta.3\<close>, and the descriptor's resolved
  version is \<^verbatim>\<open>1.1.1-beta.0\<close>, what the standard calculation made of the last release
  \<^verbatim>\<open>v1.1.0\<close>, with major, minor and patch version 1, 1 and 1.
\<close>

theorem generateReleaseInfo_resolved_version_overwritten:
  "map_sum id
     (map_option (\<lambda>d. (info_resolvedVersion d, info_majorVersion d, info_minorVersion d,
                          info_patchVersion d)))
     (snd (generateReleaseInfo example_semver_parse example_getVersionInfo example_template
             (run_with_draft ''v1.2.0-beta.3'')))
   = Inr (Some (Some ''1.1.1-beta.0'', Some 1, Some 1, Some 1))"
  by code_simp

text \<open>
  Claim C3 (a draft whose tag fails the shape check is treated as no draft, with the
  flag false) at four runs whose drafts are tagged \<^verbatim>\<open>v1.2.0-beta\<close> (one component),
  \<^verbatim>\<open>v1.2.0-rc.3\<close> (another identifier), \<^verbatim>\<open>v1.2.0-beta.x\<close> (no number) and
  \<^verbatim>\<open>preview\<close> (no version): the flag of the descriptor is true each time, while the run
  without a draft returns false.
\<close>

theorem generateReleaseInfo_malformed_draft_flag:
  "map (\<lambda>i. map_sum id (map_option info_foundPrSpecificDraft)
               (snd (generateReleaseInfo example_semver_parse example_getVersionInfo
                       example_template i)))
     [run_with_draft ''v1.2.0-beta'', run_with_draft ''v1.2.0-rc.3'',
      run_with_draft ''v1.2.0-beta.x'', run_with_draft ''preview'',
      (run_with_draft ''preview'')\<lparr>prSpecificRelease := None\<rparr>]
   = [Inr (Some True), Inr (Some True), Inr (Some True), Inr (Some True), Inr (Some False)]"
  by code_simp

section \<open>The version key increment\<close>

text \<open>
  Claim C4 (the highest class among the trigger labels present is returned) at two
  changes, one labelled \<^verbatim>\<open>major\<close> and one labelled \<^verbatim>\<open>constructor\<close>, with the trigger
  labels \<^verbatim>\<open>patch\<close>, \<^verbatim>\<open>minor\<close>, \<^verbatim>\<open>major\<close> and the default \<^verbatim>\<open>patch\<close>: the look-up of
  \<^verbatim>\<open>constructor\<close> finds the inherited property of the object, the maximum is not a
  number, and the default \<^verbatim>\<open>patch\<close> is returned. Without the second change the result
  is \<^verbatim>\<open>major\<close>.
\<close>

theorem resolveVersionKeyIncrement_inherited_property:
  "resolveVersionKeyIncrement [pr_labelled 1 [''major''], pr_labelled 2 [''constructor'']]
     example_config False = ''patch''
   \<and> resolveVersionKeyIncrement [pr_labelled 1 [''major'']] example_config False = ''major''"
  by code_simp

text \<open>The look-up gives the highest class that lists the label.\<close>

lemma map_of_rev_constant:
  "map_of (rev (map (\<lambda>l. (l, k)) ls)) x = (if x \<in> set ls then Some k else None)"
  by (induction ls) (auto simp: map_add_def split: option.splits)

lemma labelToKeyMap_value:
  "labelToKeyMap cfg l =
     (if l \<in> set (major_labels cfg) then Key major
      else if l \<in> set (minor_labels cfg) then Key minor
      else if l \<in> set (patch_labels cfg) then Key patch
      else if l \<in> set object_prototype_properties then Inherited else Undefined)"
  by (simp add: labelToKeyMap_def labelToKeyMap_entries_def priority_keys_def
        map_add_def map_of_rev_constant split: option.splits)

lemma max_of_keys:
  assumes "\<forall>v\<in>set vs. \<exists>k. v = Key k"
  shows "foldl js_max2 (Num m) (map priority_of vs) =
           Num (max m (if Key major \<in> set vs then 3 else if Key minor \<in> set vs then 2
                       else if Key patch \<in> set vs then 1 else 0))"
  using assms
proof (induction vs arbitrary: m)
  case Nil
  then show ?case by simp
next
  case (Cons v vs)
  then obtain k where k: "v = Key k" by auto
  have "foldl js_max2 (Num (max m (priorityMap k))) (map priority_of vs) =
           Num (max (max m (priorityMap k))
                  (if Key major \<in> set vs then 3 else if Key minor \<in> set vs then 2
                       else if Key patch \<in> set vs then 1 else 0))"
    using Cons.prems by (intro Cons.IH) simp
  then show ?case
    by (cases k) (auto simp: k)
qed

lemma Math_max_of_keys:
  assumes "\<forall>v\<in>set vs. \<exists>k. v = Key k"
  shows "Math_max (map priority_of vs) =
           (if Key major \<in> set vs then Num 3 else if Key minor \<in> set vs then Num 2
            else if Key patch \<in> set vs then Num 1 else NegInfinity)"
proof (cases vs)
  case Nil
  then show ?thesis by (simp add: Math_max_def)
next
  case (Cons v ws)
  with assms obtain k where k: "v = Key k" by auto
  have "\<forall>v\<in>set ws. \<exists>k. v = Key k" using assms Cons by simp
  from max_of_keys [OF this, of "priorityMap k"] show ?thesis
    by (cases k) (auto simp: Math_max_def Cons k)
qed

lemma key_present:
  "Key k \<in> set (filter truthy (concat (map (\<lambda>pr. map (labelToKeyMap cfg) (labels pr)) ps)))
     \<longleftrightarrow> (\<exists>pr\<in>set ps. \<exists>l\<in>set (labels pr). labelToKeyMap cfg l = Key k)"
  by (force simp: image_iff)

text \<open>
  Where no label of a filtered change reads an inherited property, the result is the
  highest class present, under the prefix \<^verbatim>\<open>pre\<close> in a pre-release run with an
  identifier: whatever the order and the number of the changes and of their labels.
\<close>

lemma resolveVersionKeyIncrement_highest:
  assumes "\<forall>pr\<in>set (filtered_changes prs cfg). \<forall>l\<in>set (labels pr).
             labelToKeyMap cfg l \<noteq> Inherited"
  shows "resolveVersionKeyIncrement prs cfg pre =
           (if pre \<and> prerelease_identifier cfg \<noteq> [] then ''pre'' else []) @ highest_present prs cfg"
proof -
  let ?ps = "filtered_changes prs cfg"
  let ?keys = "filter truthy (concat (map (\<lambda>pr. map (labelToKeyMap cfg) (labels pr)) ?ps))"
  have keys: "\<forall>v\<in>set ?keys. \<exists>k. v = Key k"
  proof
    fix v assume v: "v \<in> set ?keys"
    then have "v \<noteq> Inherited" using assms by auto
    moreover have "truthy v" using v by simp
    ultimately show "\<exists>k. v = Key k" by (cases v) simp_all
  qed
  have present: "trigger_present prs cfg k \<longleftrightarrow>
      (\<exists>pr\<in>set ?ps. \<exists>l\<in>set (labels pr). l \<in> set (resolver_labels cfg k))" for k
    by (simp add: trigger_present_def list_ex_iff)
  have mj: "Key major \<in> set ?keys \<longleftrightarrow> trigger_present prs cfg major"
    unfolding key_present present by (auto simp: labelToKeyMap_value split: if_splits)
  have mi: "Key minor \<in> set ?keys \<longleftrightarrow> trigger_present prs cfg minor"
    if "\<not> trigger_present prs cfg major"
    using that unfolding key_present present
    by (auto simp: labelToKeyMap_value split: if_splits)
  have pa: "Key patch \<in> set ?keys \<longleftrightarrow> trigger_present prs cfg patch"
    if "\<not> trigger_present prs cfg major" "\<not> trigger_present prs cfg minor"
    using that unfolding key_present present
    by (auto simp: labelToKeyMap_value split: if_splits)
  have "(case find (\<lambda>key. strict_equal (priorityMap key) (Math_max (map priority_of ?keys)))
                priority_keys of
           Some k \<Rightarrow> key_name k | None \<Rightarrow> default_key cfg) = highest_present prs cfg"
    unfolding Math_max_of_keys [OF keys] highest_present_def
    using mj mi pa by (simp add: priority_keys_def)
  then show ?thesis
    by (simp add: resolveVersionKeyIncrement_def Let_def filtered_changes_def)
qed

section \<open>The release matcher under reordering\<close>

text \<open>The sort keeps the elements; under a consistent comparator its result is sorted.\<close>

lemma mset_insort_by: "mset (insort_by c x xs) = add_mset x (mset xs)"
  by (induction xs) simp_all

lemma mset_array_sort: "mset (array_sort c xs) = mset xs"
  by (induction xs) (simp_all add: array_sort_def mset_insort_by)














section \<open>Categories and the uncategorized list\<close>

lemma categorized_nth:
  assumes "i < length (categories cfg)"
  shows "snd (categorizePullRequests prs cfg) ! i =
     (categories cfg ! i,
      (if findIndex (\<lambda>category. length (cat_labels category) = 0) (categories cfg) = Some i
       then filter (\<lambda>p. length (labels p) = 0 \<or>
                 \<not> list_ex (\<lambda>l. l \<in> set (concat (map cat_labels (categories cfg)))) (labels p))
              (filter (getFilterIncludedPullRequests (include_labels cfg))
                (filter (getFilterExcludedPullRequests (exclude_labels cfg)) prs))
       else []) @
      filter (\<lambda>p. list_ex (\<lambda>l. l \<in> set (cat_labels (categories cfg ! i))) (labels p))
        (filter (\<lambda>p. \<not> (length (labels p) = 0 \<or>
                 \<not> list_ex (\<lambda>l. l \<in> set (concat (map cat_labels (categories cfg)))) (labels p)))
           (filter (getFilterIncludedPullRequests (include_labels cfg))
             (filter (getFilterExcludedPullRequests (exclude_labels cfg)) prs))))"
  using assms
  by (simp add: categorizePullRequests_def Let_def nth_enumerate_eq)

lemma categorized_member:
  assumes "p \<in> set prs"
    and "getFilterExcludedPullRequests (exclude_labels cfg) p"
    and "getFilterIncludedPullRequests (include_labels cfg) p"
    and "i < length (categories cfg)"
    and "list_ex (\<lambda>l. l \<in> set (cat_labels (categories cfg ! i))) (labels p)"
  shows "p \<in> set (snd (snd (categorizePullRequests prs cfg) ! i))"
proof -
  from assms(5) obtain l where l: "l \<in> set (labels p)" "l \<in> set (cat_labels (categories cfg ! i))"
    by (auto simp: list_ex_iff)
  have "categories cfg ! i \<in> set (categories cfg)"
    using assms(4) by simp
  with l have "list_ex (\<lambda>l. l \<in> set (concat (map cat_labels (categories cfg)))) (labels p)"
    by (auto simp: list_ex_iff)
  moreover have "labels p \<noteq> []" using l by auto
  ultimately show ?thesis
    using assms by (simp add: categorized_nth)
qed

lemma categorized_disjoint:
  assumes "(c, ps) \<in> set (snd (categorizePullRequests prs cfg))"
  shows "set ps \<inter> set (fst (categorizePullRequests prs cfg)) = {}"
proof (cases "findIndex (\<lambda>category. length (cat_labels category) = 0) (categories cfg)")
  case (Some k)
  then show ?thesis by (simp add: categorizePullRequests_def Let_def)
next
  case None
  from assms obtain i where i: "i < length (categories cfg)"
    and nth: "snd (categorizePullRequests prs cfg) ! i = (c, ps)"
    by (auto simp: in_set_conv_nth categorizePullRequests_def Let_def)
  from nth i None have "\<forall>p\<in>set ps. \<not> (length (labels p) = 0 \<or>
       \<not> list_ex (\<lambda>l. l \<in> set (concat (map cat_labels (categories cfg)))) (labels p))"
    by (auto simp: categorized_nth)
  moreover from None have "\<forall>p\<in>set (fst (categorizePullRequests prs cfg)).
       length (labels p) = 0 \<or>
       \<not> list_ex (\<lambda>l. l \<in> set (concat (map cat_labels (categories cfg)))) (labels p)"
    by (auto simp: categorizePullRequests_def Let_def)
  ultimately show ?thesis by blast
qed

text \<open>
  Claim C6, as stated (a change whose labels meet the labels of several categories is in
  the list of each of them), fails for a change that the exclude filter removes: the
  change labelled \<^verbatim>\<open>feature\<close>, \<^verbatim>\<open>bug\<close> and \<^verbatim>\<open>skip-changelog\<close> meets both categories
  and is in the list of neither.
\<close>

theorem categorizePullRequests_excluded_counterexample:
  "list_ex (\<lambda>l. l \<in> set (cat_labels (categories example_config ! 0)))
     (labels (pr_labelled 3 [''feature'', ''bug'', ''skip-changelog'']))
   \<and> list_ex (\<lambda>l. l \<in> set (cat_labels (categories example_config ! 1)))
     (labels (pr_labelled 3 [''feature'', ''bug'', ''skip-changelog'']))
   \<and> map snd (snd (categorizePullRequests
        [pr_labelled 3 [''feature'', ''bug'', ''skip-changelog'']] example_config)) = [[], []]"
  by code_simp

text \<open>
  Claim C6, amended. A change of the input that passes the exclude filter and the include
  filter and has a label among the labels of a category is in the list of that category,
  so in the list of each of the categories it meets, the same change each time; and the
  list of every category is disjoint from the uncategorized list.
\<close>

theorem categorizePullRequests_duplicates_and_disjoint:
  "(\<forall>p\<in>set prs. \<forall>i<length (categories cfg).
      getFilterExcludedPullRequests (exclude_labels cfg) p \<and>
      getFilterIncludedPullRequests (include_labels cfg) p \<and>
      list_ex (\<lambda>l. l \<in> set (cat_labels (categories cfg ! i))) (labels p) \<longrightarrow>
      fst (snd (categorizePullRequests prs cfg) ! i) = categories cfg ! i \<and>
      p \<in> set (snd (snd (categorizePullRequests prs cfg) ! i)))
   \<and> (\<forall>(c, ps)\<in>set (snd (categorizePullRequests prs cfg)).
        set ps \<inter> set (fst (categorizePullRequests prs cfg)) = {})"
proof (intro conjI ballI allI impI)
  fix p i
  assume "p \<in> set prs" "i < length (categories cfg)"
    and "getFilterExcludedPullRequests (exclude_labels cfg) p \<and>
      getFilterIncludedPullRequests (include_labels cfg) p \<and>
      list_ex (\<lambda>l. l \<in> set (cat_labels (categories cfg ! i))) (labels p)"
  then show "fst (snd (categorizePullRequests prs cfg) ! i) = categories cfg ! i"
    and "p \<in> set (snd (snd (categorizePullRequests prs cfg) ! i))"
    by (simp_all add: categorized_member) (simp add: categorized_nth)
next
  fix x
  assume x: "x \<in> set (snd (categorizePullRequests prs cfg))"
  obtain c ps where "x = (c, ps)" by (cases x)
  with x show "case x of (c, ps) \<Rightarrow> set ps \<inter> set (fst (categorizePullRequests prs cfg)) = {}"
    by (simp add: categorized_disjoint)
qed

theorem categorizePullRequests_duplicates_and_disjoint_witness:
  "pr_labelled 1 [''feature'', ''bug''] \<in> set (snd (snd (categorizePullRequests
       [pr_labelled 1 [''feature'', ''bug''], pr_labelled 2 []] example_config) ! 0))
   \<and> pr_labelled 1 [''feature'', ''bug''] \<in> set (snd (snd (categorizePullRequests
       [pr_labelled 1 [''feature'', ''bug''], pr_labelled 2 []] example_config) ! 1))
   \<and> set (snd (snd (categorizePullRequests
       [pr_labelled 1 [''feature'', ''bug''], pr_labelled 2 []] example_config) ! 0))
      \<inter> set (fst (categorizePullRequests
       [pr_labelled 1 [''feature'', ''bug''], pr_labelled 2 []] example_config)) = {}
   \<and> fst (categorizePullRequests
       [pr_labelled 1 [''feature'', ''bug''], pr_labelled 2 []] example_config) = [pr_labelled 2 []]"
proof -
  let ?p = "pr_labelled 1 [''feature'', ''bug'']"
  let ?prs = "[?p, pr_labelled 2 []]"
  let ?R = "categorizePullRequests ?prs example_config"
  note inst = categorizePullRequests_duplicates_and_disjoint [of ?prs example_config]
  have len: "length (categories example_config) = 2" by code_simp
  have pre: "getFilterExcludedPullRequests (exclude_labels example_config) ?p"
    "getFilterIncludedPullRequests (include_labels example_config) ?p"
    "list_ex (\<lambda>l. l \<in> set (cat_labels (categories example_config ! 0))) (labels ?p)"
    "list_ex (\<lambda>l. l \<in> set (cat_labels (categories example_config ! 1))) (labels ?p)"
    by code_simp+
  have m0: "?p \<in> set (snd (snd ?R ! 0))"
    using inst pre len by auto
  have m1: "?p \<in> set (snd (snd ?R ! 1))"
    using inst pre len by auto
  have "length (snd ?R) = 2" by code_simp
  then have "snd ?R ! 0 \<in> set (snd ?R)" by simp
  with inst have d0: "set (snd (snd ?R ! 0)) \<inter> set (fst ?R) = {}"
    by (auto simp: case_prod_beta)
  have u: "fst ?R = [pr_labelled 2 []]" by code_simp
  from m0 m1 d0 u show ?thesis by simp
qed

section \<open>Escaping of titles\<close>

lemma escape_replacement_char:
  "c \<in> set escapes \<Longrightarrow> escape_replacement [c] = escaped_char escapes c"
  by (simp add: escape_replacement_def escaped_char_def)

lemma escaped_char_other: "c \<notin> set escapes \<Longrightarrow> escaped_char escapes c = [c]"
  by (simp add: escaped_char_def)

lemma replace_escapes_plain:
  "CHR 0x60 \<notin> set s \<or> CHR 0x60 \<in> set escapes
     \<Longrightarrow> replace_escapes escapes s = concat (map (escaped_char escapes) s)"
proof (induction s)
  case Nil
  then show ?case by simp
next
  case (Cons c cs)
  then have tl: "replace_escapes escapes cs = concat (map (escaped_char escapes) cs)"
    by auto
  show ?case
  proof (cases "c \<in> set escapes")
    case True
    then show ?thesis by (simp add: tl escape_replacement_char)
  next
    case False
    with Cons.prems have "c \<noteq> CHR 0x60" by auto
    with False show ?thesis by (simp add: tl escaped_char_other)
  qed
qed

lemma code_span_closed:
  assumes "CHR 0x60 \<notin> set inner" and "\<not> list_ex line_terminator inner"
  shows "code_span (inner @ CHR 0x60 # post) = Some (inner, post)"
proof -
  let ?p = "\<lambda>x. x \<noteq> CHR 0x60 \<and> \<not> line_terminator x"
  have all: "\<forall>x\<in>set inner. ?p x"
    using assms by (auto simp: list_ex_iff)
  then have "dropWhile ?p (inner @ CHR 0x60 # post) = CHR 0x60 # post"
    by (simp add: dropWhile_append2)
  moreover from all have "takeWhile ?p (inner @ CHR 0x60 # post) = inner"
    by (simp add: takeWhile_append2)
  ultimately show ?thesis by (simp add: code_span_def)
qed

lemma replace_escapes_span:
  assumes "CHR 0x60 \<notin> set escapes"
    and "CHR 0x60 \<notin> set inner" and "\<not> list_ex line_terminator inner"
  shows "CHR 0x60 \<notin> set pre \<Longrightarrow>
         replace_escapes escapes (pre @ [CHR 0x60] @ inner @ [CHR 0x60] @ post) =
           concat (map (escaped_char escapes) pre) @ [CHR 0x60] @ inner @ [CHR 0x60] @
           replace_escapes escapes post"
proof (induction pre)
  case Nil
  show ?case
    using assms(1) code_span_closed [OF assms(2,3)]
    by (simp add: escape_replacement_def)
next
  case (Cons c cs)
  then have tl: "replace_escapes escapes (cs @ [CHR 0x60] @ inner @ [CHR 0x60] @ post) =
           concat (map (escaped_char escapes) cs) @ [CHR 0x60] @ inner @ [CHR 0x60] @
           replace_escapes escapes post"
    by simp
  show ?case
  proof (cases "c \<in> set escapes")
    case True
    then show ?thesis using tl by (simp add: escape_replacement_char)
  next
    case False
    moreover have "c \<noteq> CHR 0x60" using Cons.prems by auto
    ultimately show ?thesis using tl by (simp add: escaped_char_other)
  qed
qed

lemma code_span_open:
  assumes "CHR 0x60 \<notin> set rest"
  shows "code_span rest = None"
proof -
  let ?p = "\<lambda>x. x \<noteq> CHR 0x60 \<and> \<not> line_terminator x"
  have absent: "CHR 0x60 \<notin> set (dropWhile ?p rest)"
    using assms by (meson set_dropWhileD)
  show ?thesis
  proof (cases "dropWhile ?p rest")
    case Nil
    show ?thesis unfolding code_span_def Nil by simp
  next
    case (Cons d post)
    have "d \<noteq> CHR 0x60" using absent unfolding Cons by auto
    then show ?thesis unfolding code_span_def Cons by simp
  qed
qed

lemma replace_escapes_open:
  assumes "CHR 0x60 \<notin> set escapes" and "CHR 0x60 \<notin> set rest"
  shows "CHR 0x60 \<notin> set pre \<Longrightarrow>
         replace_escapes escapes (pre @ [CHR 0x60] @ rest) =
           concat (map (escaped_char escapes) pre) @ [CHR 0x60] @
           concat (map (escaped_char escapes) rest)"
proof (induction pre)
  case Nil
  have "replace_escapes escapes rest = concat (map (escaped_char escapes) rest)"
    by (rule replace_escapes_plain) (simp add: assms(2))
  then show ?case
    using assms(1) by (simp add: code_span_open [OF assms(2)])
next
  case (Cons c cs)
  then have tl: "replace_escapes escapes (cs @ [CHR 0x60] @ rest) =
           concat (map (escaped_char escapes) cs) @ [CHR 0x60] @
           concat (map (escaped_char escapes) rest)"
    by simp
  show ?case
  proof (cases "c \<in> set escapes")
    case True
    then show ?thesis using tl by (simp add: escape_replacement_char)
  next
    case False
    moreover have "c \<noteq> CHR 0x60" using Cons.prems by auto
    ultimately show ?thesis using tl by (simp add: escaped_char_other)
  qed
qed

text \<open>
  Claim C7, as stated (a code span is passed through whatever the escape set), fails for
  an escape set that holds the back-tick, as the comment in the source says: with the
  escape set of back-tick and \<^verbatim>\<open>#\<close>, the title made of the span \<^verbatim>\<open>a#b\<close> between
  back-ticks has both back-ticks escaped and \<^verbatim>\<open>#\<close> followed by \<^verbatim>\<open><!---->\<close>.
\<close>

theorem escapeTitle_backtick_counterexample:
  "escapeTitle (example_config\<lparr>change_title_escapes := [CHR 0x60, CHR ''#'']\<rparr>)
     ([CHR 0x60] @ ''a#b'' @ [CHR 0x60])
   = [CHR 0x5C, CHR 0x60] @ ''a#<!---->b'' @ [CHR 0x5C, CHR 0x60]"
  by code_simp

text \<open>
  Claim C7, amended. For an escape set without the back-tick: in a title without
  back-ticks every character is treated by the rule for one character (backslash in front
  of a character of the escape set, \<^verbatim>\<open><!---->\<close> behind \<^verbatim>\<open>@\<close> and \<^verbatim>\<open>#\<close>); and the
  first code span of a title (a back-tick, then characters that are neither back-ticks nor
  line terminators, then a back-tick) is passed through verbatim, the text before it
  treated by that rule and the text after it escaped in the same way; a single back-tick
  stays, with the text on both sides treated by the rule.
\<close>

theorem escapeTitle_outside_code_spans:
  assumes "CHR 0x60 \<notin> set (change_title_escapes cfg)"
  shows "(CHR 0x60 \<notin> set pre \<longrightarrow>
            escapeTitle cfg pre = concat (map (escaped_char (change_title_escapes cfg)) pre))
       \<and> (CHR 0x60 \<notin> set pre \<and> CHR 0x60 \<notin> set inner \<and> \<not> list_ex line_terminator inner \<longrightarrow>
            escapeTitle cfg (pre @ [CHR 0x60] @ inner @ [CHR 0x60] @ post) =
              concat (map (escaped_char (change_title_escapes cfg)) pre) @
              [CHR 0x60] @ inner @ [CHR 0x60] @ escapeTitle cfg post)
       \<and> (CHR 0x60 \<notin> set pre \<and> CHR 0x60 \<notin> set inner \<longrightarrow>
            escapeTitle cfg (pre @ [CHR 0x60] @ inner) =
              concat (map (escaped_char (change_title_escapes cfg)) pre) @
              [CHR 0x60] @ concat (map (escaped_char (change_title_escapes cfg)) inner))"
proof (intro conjI impI)
  assume "CHR 0x60 \<notin> set pre"
  then show "escapeTitle cfg pre = concat (map (escaped_char (change_title_escapes cfg)) pre)"
    unfolding escapeTitle_def by (intro replace_escapes_plain disjI1)
next
  assume "CHR 0x60 \<notin> set pre \<and> CHR 0x60 \<notin> set inner \<and> \<not> list_ex line_terminator inner"
  then show "escapeTitle cfg (pre @ [CHR 0x60] @ inner @ [CHR 0x60] @ post) =
      concat (map (escaped_char (change_title_escapes cfg)) pre) @
      [CHR 0x60] @ inner @ [CHR 0x60] @ escapeTitle cfg post"
    unfolding escapeTitle_def using assms by (intro replace_escapes_span) simp_all
next
  assume "CHR 0x60 \<notin> set pre \<and> CHR 0x60 \<notin> set inner"
  then show "escapeTitle cfg (pre @ [CHR 0x60] @ inner) =
      concat (map (escaped_char (change_title_escapes cfg)) pre) @
      [CHR 0x60] @ concat (map (escaped_char (change_title_escapes cfg)) inner)"
    unfolding escapeTitle_def using assms by (intro replace_escapes_open) simp_all
qed

theorem escapeTitle_outside_code_spans_witness:
  "escapeTitle example_config ''Fix #123 @bug'' = ''Fix #<!---->123 @<!---->bug''
   \<and> escapeTitle example_config (''Fix '' @ [CHR 0x60] @ ''a#b'' @ [CHR 0x60] @ '' in #7'')
       = ''Fix '' @ [CHR 0x60] @ ''a#b'' @ [CHR 0x60] @ '' in #<!---->7''"
proof -
  have e: "CHR 0x60 \<notin> set (change_title_escapes example_config)" by code_simp
  have p: "CHR 0x60 \<notin> set ''Fix #123 @bug''" "CHR 0x60 \<notin> set ''Fix ''" "CHR 0x60 \<notin> set ''a#b''"
    "\<not> list_ex line_terminator ''a#b''"
    by code_simp+
  have v: "concat (map (escaped_char (change_title_escapes example_config)) ''Fix #123 @bug'')
             = ''Fix #<!---->123 @<!---->bug''"
    "concat (map (escaped_char (change_title_escapes example_config)) ''Fix '') = ''Fix ''"
    "escapeTitle example_config '' in #7'' = '' in #<!---->7''"
    by code_simp+
  from escapeTitle_outside_code_spans [OF e, of "''Fix #123 @bug''"] p(1) v(1)
  have a: "escapeTitle example_config ''Fix #123 @bug'' = ''Fix #<!---->123 @<!---->bug''"
    by simp
  from escapeTitle_outside_code_spans [OF e, of "''Fix ''" "''a#b''" "'' in #7''"] p(2-4) v(2,3)
  have b: "escapeTitle example_config (''Fix '' @ [CHR 0x60] @ ''a#b'' @ [CHR 0x60] @ '' in #7'')
       = ''Fix '' @ [CHR 0x60] @ ''a#b'' @ [CHR 0x60] @ '' in #<!---->7''"
    by simp
  from a b show ?thesis by simp
qed

end
